theory Spec2Isabelle
  imports Main "HOL-Library.Sublist" "HOL-Library.List_Lexorder" "HOL-Library.Char_ord"
begin

section \<open>JavaScript values used by the exporter\<close>

text \<open>
  A string of the model is the UTF-8 encoding of the JavaScript string, one \<open>char\<close> per
  byte. All separators, escapes and digits the program looks for are ASCII, so searching,
  splitting and replacing act on the bytes as they act on the UTF-16 code units.

  A \<open>number\<close> carries the exact decimal value: \<open>Integer i\<close> is the integer \<open>i\<close>,
  \<open>Decimal m e\<close> is \<open>m / 10 ^ e\<close> with \<open>e > 0\<close> and \<open>m\<close> not a multiple of ten (a
  value that is not an integer). Plus and minus zero are one value; the program cannot tell
  them apart (both are falsy, both print as 0, and \<open>===\<close> equates them). The rounding of
  a literal of more than 15 significant digits to the nearest double, and overflow to
  Infinity beyond the double range, are outside the model.
\<close>

datatype number = NaN | PosInfinity | NegInfinity | Integer int | Decimal int nat

text \<open>Truthiness of a number: \<open>!n\<close> holds for NaN and zero only.\<close>

fun truthy :: "number \<Rightarrow> bool" where
  "truthy NaN = False"
| "truthy (Integer i) = (i \<noteq> 0)"
| "truthy (Decimal m e) = (m \<noteq> 0)"
| "truthy _ = True"

text \<open>\<open>a === b\<close> on numbers: NaN equals nothing, itself included.\<close>

definition strict_equals :: "number \<Rightarrow> number \<Rightarrow> bool" where
  "strict_equals a b \<longleftrightarrow> a \<noteq> NaN \<and> b \<noteq> NaN \<and> a = b"

text \<open>Reading index \<open>i\<close> of an array: \<open>undefined\<close> (here \<open>None\<close>) past its end.\<close>

definition nth_opt :: "'a list \<Rightarrow> nat \<Rightarrow> 'a option" where
  "nth_opt xs i = (if i < length xs then Some (xs ! i) else None)"

subsection \<open>String.prototype.split, with a non-empty separator\<close>

fun split :: "string \<Rightarrow> string \<Rightarrow> string list" where
  "split sep [] = [[]]"
| "split sep (c # cs) =
     (if sep \<noteq> [] \<and> prefix sep (c # cs) then [] # split sep (drop (length sep - 1) cs)
      else (case split sep cs of
              p # ps \<Rightarrow> (c # p) # ps
            | [] \<Rightarrow> [[c]]))"

subsection \<open>String.prototype.trim\<close>

text \<open>
  The white space and line terminator code points of ECMAScript, as UTF-8 byte sequences:
  TAB, LF, VT, FF, CR, SP, U+00A0, U+1680, U+2000 to U+200A, U+2028, U+2029, U+202F,
  U+205F, U+3000 and U+FEFF.
\<close>

definition white_space :: "string list" where
  "white_space =
    [[CHR 0x09], [CHR 0x0A], [CHR 0x0B], [CHR 0x0C], [CHR 0x0D], [CHR 0x20],
     [CHR 0xC2, CHR 0xA0], [CHR 0xE1, CHR 0x9A, CHR 0x80],
     [CHR 0xE2, CHR 0x80, CHR 0x80], [CHR 0xE2, CHR 0x80, CHR 0x81],
     [CHR 0xE2, CHR 0x80, CHR 0x82], [CHR 0xE2, CHR 0x80, CHR 0x83],
     [CHR 0xE2, CHR 0x80, CHR 0x84], [CHR 0xE2, CHR 0x80, CHR 0x85],
     [CHR 0xE2, CHR 0x80, CHR 0x86], [CHR 0xE2, CHR 0x80, CHR 0x87],
     [CHR 0xE2, CHR 0x80, CHR 0x88], [CHR 0xE2, CHR 0x80, CHR 0x89],
     [CHR 0xE2, CHR 0x80, CHR 0x8A], [CHR 0xE2, CHR 0x80, CHR 0xA8],
     [CHR 0xE2, CHR 0x80, CHR 0xA9], [CHR 0xE2, CHR 0x80, CHR 0xAF],
     [CHR 0xE2, CHR 0x81, CHR 0x9F], [CHR 0xE3, CHR 0x80, CHR 0x80],
     [CHR 0xEF, CHR 0xBB, CHR 0xBF]]"

text \<open>Strips, from the front, every leading occurrence of one of the sequences \<open>ws\<close>.\<close>

function strip_leading :: "string list \<Rightarrow> string \<Rightarrow> string" where
  "strip_leading ws s =
     (case find (\<lambda>w. w \<noteq> [] \<and> prefix w s) ws of
        None \<Rightarrow> s
      | Some w \<Rightarrow> strip_leading ws (drop (length w) s))"
  by pat_completeness auto
termination
proof (relation "measure (\<lambda>(ws, s). length s)")
  show "wf (measure (\<lambda>(ws, s). length s))" by simp
next
  fix ws :: "string list" and s w :: string
  assume "find (\<lambda>w. w \<noteq> [] \<and> prefix w s) ws = Some w"
  then have "w \<noteq> []" and "prefix w s"
    by (auto simp: find_Some_iff)
  then have "s \<noteq> []" by auto
  with \<open>w \<noteq> []\<close> show "((ws, drop (length w) s), (ws, s)) \<in> measure (\<lambda>(ws, s). length s)"
    by simp
qed

declare strip_leading.simps [simp del]

definition trimStart :: "string \<Rightarrow> string" where
  "trimStart s = strip_leading white_space s"

definition trimEnd :: "string \<Rightarrow> string" where
  "trimEnd s = rev (strip_leading (map rev white_space) (rev s))"

definition trim :: "string \<Rightarrow> string" where
  "trim s = trimEnd (trimStart s)"

subsection \<open>Number(string)\<close>

definition is_digit :: "char \<Rightarrow> bool" where
  "is_digit c \<longleftrightarrow> c \<in> set ''0123456789''"

text \<open>The value of a digit of a literal in base 2, 8, 10 or 16 (\<open>None\<close>: not a digit).\<close>

definition digit_value :: "nat \<Rightarrow> char \<Rightarrow> nat option" where
  "digit_value base c =
     (let v = (if CHR ''0'' \<le> c \<and> c \<le> CHR ''9'' then Some (of_char c - 48)
               else if CHR ''a'' \<le> c \<and> c \<le> CHR ''f'' then Some (of_char c - 87)
               else if CHR ''A'' \<le> c \<and> c \<le> CHR ''F'' then Some (of_char c - 55)
               else None)
      in case v of Some d \<Rightarrow> if d < base then Some d else None | None \<Rightarrow> None)"

text \<open>The value of a non-empty run of digits; \<open>None\<close> when empty or when a character is
  not a digit of the base.\<close>

fun digits_value_acc :: "nat \<Rightarrow> nat \<Rightarrow> string \<Rightarrow> nat option" where
  "digits_value_acc base acc [] = Some acc"
| "digits_value_acc base acc (c # cs) =
     (case digit_value base c of
        None \<Rightarrow> None
      | Some d \<Rightarrow> digits_value_acc base (acc * base + d) cs)"

definition digits_value :: "nat \<Rightarrow> string \<Rightarrow> nat option" where
  "digits_value base ds = (if ds = [] then None else digits_value_acc base 0 ds)"

text \<open>\<open>decimal m e\<close> is the number \<open>m / 10 ^ e\<close>.\<close>

fun decimal :: "int \<Rightarrow> nat \<Rightarrow> number" where
  "decimal m 0 = Integer m"
| "decimal m (Suc e) = (if m mod 10 = 0 then decimal (m div 10) e else Decimal m (Suc e))"

text \<open>The number \<open>(\<plusminus> m) * 10 ^ x\<close>.\<close>

definition scaled :: "bool \<Rightarrow> nat \<Rightarrow> int \<Rightarrow> number" where
  "scaled neg m x =
     (let v = (if neg then - int m else int m)
      in if 0 \<le> x then Integer (v * 10 ^ nat x) else decimal v (nat (- x)))"

text \<open>An integer literal with a radix prefix (\<open>0x\<close>, \<open>0o\<close>, \<open>0b\<close>): no sign, digits only.\<close>

definition radix_literal :: "nat \<Rightarrow> string \<Rightarrow> number" where
  "radix_literal base ds =
     (case digits_value base ds of None \<Rightarrow> NaN | Some v \<Rightarrow> Integer (int v))"

text \<open>The exponent part of a decimal literal, after its \<open>e\<close>: an optional sign and digits.\<close>

definition exponent_part :: "string \<Rightarrow> int option" where
  "exponent_part s =
     (case s of
        c # r \<Rightarrow>
          if c = CHR ''+'' then map_option int (digits_value 10 r)
          else if c = CHR ''-'' then map_option (\<lambda>v. - int v) (digits_value 10 r)
          else map_option int (digits_value 10 s)
      | [] \<Rightarrow> None)"

text \<open>An unsigned decimal literal: digits, an optional fraction, an optional exponent.\<close>

definition unsigned_decimal :: "bool \<Rightarrow> string \<Rightarrow> number" where
  "unsigned_decimal neg r =
     (if r = ''Infinity'' then (if neg then NegInfinity else PosInfinity)
      else
        let ip = takeWhile is_digit r;
            r1 = dropWhile is_digit r;
            dot = (r1 \<noteq> [] \<and> hd r1 = CHR ''.'');
            fp = (if dot then takeWhile is_digit (tl r1) else []);
            r2 = (if dot then dropWhile is_digit (tl r1) else r1)
        in if ip = [] \<and> fp = [] then NaN
           else
             (case digits_value 10 (ip @ fp) of
                None \<Rightarrow> NaN
              | Some m \<Rightarrow>
                  (case r2 of
                     [] \<Rightarrow> scaled neg m (- int (length fp))
                   | c # r3 \<Rightarrow>
                       if c = CHR ''e'' \<or> c = CHR ''E'' then
                         (case exponent_part r3 of
                            None \<Rightarrow> NaN
                          | Some x \<Rightarrow> scaled neg m (x - int (length fp)))
                       else NaN)))"

text \<open>\<open>Number(s)\<close>: white space is trimmed, the empty string is 0, and a string that is
  not a numeric literal is NaN.\<close>

definition Number :: "string \<Rightarrow> number" where
  "Number s =
     (let t = trim s in
      if t = [] then Integer 0
      else if take 2 t = ''0x'' \<or> take 2 t = ''0X'' then radix_literal 16 (drop 2 t)
      else if take 2 t = ''0o'' \<or> take 2 t = ''0O'' then radix_literal 8 (drop 2 t)
      else if take 2 t = ''0b'' \<or> take 2 t = ''0B'' then radix_literal 2 (drop 2 t)
      else
        (case t of
           c # r \<Rightarrow>
             if c = CHR ''+'' then unsigned_decimal False r
             else if c = CHR ''-'' then unsigned_decimal True r
             else unsigned_decimal False t
         | [] \<Rightarrow> Integer 0))"

subsection \<open>String(number)\<close>

fun digits_of_nat :: "nat \<Rightarrow> string" where
  "digits_of_nat n =
     (if n < 10 then [''0123456789'' ! n]
      else digits_of_nat (n div 10) @ [''0123456789'' ! (n mod 10)])"

declare digits_of_nat.simps [simp del]

text \<open>
  Number::toString for a positive finite value with significant digits \<open>s\<close> (no trailing
  zero) and decimal exponent \<open>n\<close>, the value being \<open>0.s * 10 ^ n\<close>.
\<close>

definition digits_to_string :: "string \<Rightarrow> int \<Rightarrow> string" where
  "digits_to_string s n =
     (let k = int (length s) in
      if k \<le> n \<and> n \<le> 21 then s @ replicate (nat (n - k)) CHR ''0''
      else if 0 < n \<and> n \<le> 21 then take (nat n) s @ ''.'' @ drop (nat n) s
      else if - 6 < n \<and> n \<le> 0 then ''0.'' @ replicate (nat (- n)) CHR ''0'' @ s
      else
        let x = n - 1;
            xs = (if 0 \<le> x then ''+'' else ''-'') @ digits_of_nat (nat \<bar>x\<bar>)
        in if k = 1 then s @ ''e'' @ xs
           else take 1 s @ ''.'' @ drop 1 s @ ''e'' @ xs)"

definition strip_trailing_zeros :: "string \<Rightarrow> string" where
  "strip_trailing_zeros ds = rev (dropWhile (\<lambda>c. c = CHR ''0'') (rev ds))"

definition positive_to_string :: "nat \<Rightarrow> nat \<Rightarrow> string" where
  "positive_to_string m e =
     (let ds = digits_of_nat m
      in digits_to_string (strip_trailing_zeros ds) (int (length ds) - int e))"

fun ToString :: "number \<Rightarrow> string" where
  "ToString NaN = ''NaN''"
| "ToString PosInfinity = ''Infinity''"
| "ToString NegInfinity = ''-Infinity''"
| "ToString (Integer i) =
     (if i = 0 then ''0''
      else if i < 0 then ''-'' @ positive_to_string (nat (- i)) 0
      else positive_to_string (nat i) 0)"
| "ToString (Decimal m e) =
     (if m = 0 then ''0''
      else if m < 0 then ''-'' @ positive_to_string (nat (- m)) e
      else positive_to_string (nat m) e)"

text \<open>\<open>s.padStart(n, c)\<close> with a one-character filler.\<close>

definition padStart :: "nat \<Rightarrow> char \<Rightarrow> string \<Rightarrow> string" where
  "padStart n c s = replicate (n - length s) c @ s"

section \<open>Time mapping table and small utilities\<close>

record period =
  sh :: number
  sm :: number
  eh :: number
  em :: number

text \<open>
  \<open>PERIOD_TIME[n]\<close>: the table has the keys 1 to 12, and a number reaches one of them
  exactly when it is that integer (the key of any other number, \<open>NaN\<close> included, is not a
  key of the table, nor of its prototype).
\<close>

definition PERIOD_TIME :: "number \<Rightarrow> period option" where
  "PERIOD_TIME n =
     (case n of
        Integer i \<Rightarrow>
          map_of
            [(1, \<lparr>sh = Integer 6, sm = Integer 30, eh = Integer 7, em = Integer 20\<rparr>),
             (2, \<lparr>sh = Integer 7, sm = Integer 25, eh = Integer 8, em = Integer 15\<rparr>),
             (3, \<lparr>sh = Integer 8, sm = Integer 20, eh = Integer 9, em = Integer 10\<rparr>),
             (4, \<lparr>sh = Integer 9, sm = Integer 20, eh = Integer 10, em = Integer 10\<rparr>),
             (5, \<lparr>sh = Integer 10, sm = Integer 15, eh = Integer 11, em = Integer 5\<rparr>),
             (6, \<lparr>sh = Integer 11, sm = Integer 10, eh = Integer 12, em = Integer 0\<rparr>),
             (7, \<lparr>sh = Integer 12, sm = Integer 30, eh = Integer 13, em = Integer 20\<rparr>),
             (8, \<lparr>sh = Integer 13, sm = Integer 25, eh = Integer 14, em = Integer 15\<rparr>),
             (9, \<lparr>sh = Integer 14, sm = Integer 20, eh = Integer 15, em = Integer 10\<rparr>),
             (10, \<lparr>sh = Integer 15, sm = Integer 20, eh = Integer 16, em = Integer 10\<rparr>),
             (11, \<lparr>sh = Integer 16, sm = Integer 15, eh = Integer 17, em = Integer 5\<rparr>),
             (12, \<lparr>sh = Integer 17, sm = Integer 10, eh = Integer 18, em = Integer 0\<rparr>)]
            i
      | _ \<Rightarrow> None)"

text \<open>The lookup with an index that may be \<open>undefined\<close>: \<open>PERIOD_TIME[undefined]\<close>
  is \<open>undefined\<close>.\<close>

definition period_at :: "number option \<Rightarrow> period option" where
  "period_at ix = (case ix of None \<Rightarrow> None | Some n \<Rightarrow> PERIOD_TIME n)"

text \<open>DateUtils.pad2 and DateUtils.toICSDate.\<close>

definition pad2 :: "number \<Rightarrow> string" where
  "pad2 n = padStart 2 CHR ''0'' (ToString n)"

definition toICSDate :: "number \<Rightarrow> number \<Rightarrow> number \<Rightarrow> number \<Rightarrow> number \<Rightarrow> string" where
  "toICSDate y m d h mi = ToString y @ pad2 m @ pad2 d @ ''T'' @ pad2 h @ pad2 mi @ ''00''"

text \<open>
  IdFactory.uid draws on the runtime: \<open>crypto.randomUUID\<close> when the page has it, the
  clock and \<open>Math.random\<close> otherwise. The runtime gives the result of the \<open>k\<close>-th draw;
  the mapper threads the count of draws.
\<close>

record runtime =
  crypto_randomUUID :: "(nat \<Rightarrow> string) option"
  Date_now :: "nat \<Rightarrow> number"
  Math_random :: "nat \<Rightarrow> number"

definition IdFactory_uid :: "runtime \<Rightarrow> nat \<Rightarrow> string \<Rightarrow> string \<times> nat" where
  "IdFactory_uid rt k pre =
     (let uuid = (case crypto_randomUUID rt of
                    Some randomUUID \<Rightarrow> randomUUID k
                  | None \<Rightarrow> ToString (Date_now rt k) @ ''-'' @ ToString (Math_random rt k))
      in (pre @ ''-'' @ uuid, Suc k))"

section \<open>Mapper: raw schedule items to calendar events\<close>

text \<open>The raw record and the event, field by field as the interfaces declare them.\<close>

record TMUScheduleItem =
  Date :: string
  PeriodName :: string
  RoomID :: string
  CaHoc :: string
  ScheduleStudyUnitID :: string
  NumberOfPeriods :: "number + string"
  ProfessorName :: string
  CurriculumName :: string

record CalendarEvent =
  uid :: string
  title :: string
  location :: string
  description :: string
  start :: string
  end' :: string

text \<open>cleanRoom: the part before the first \<open></br>\<close>, trimmed. A split on a non-empty
  separator has a first piece (\<open>split_not_Nil\<close> below), so the second case is never taken.\<close>

definition cleanRoom :: "string \<Rightarrow> string" where
  "cleanRoom roomId = trim (case split ''</br>'' roomId of p # _ \<Rightarrow> p | [] \<Rightarrow> [])"

text \<open>
  The regular expression \<open>\((.*?)\)\<close>: after an opening parenthesis, the shortest run of
  characters other than line terminators (LF, CR, U+2028, U+2029) that a closing
  parenthesis follows. \<open>lazy_group\<close> is the group captured after one opening parenthesis,
  \<open>match_group\<close> the group of the leftmost match.
\<close>

definition line_terminator_at :: "string \<Rightarrow> bool" where
  "line_terminator_at s \<longleftrightarrow>
     prefix [CHR 0x0A] s \<or> prefix [CHR 0x0D] s \<or>
     prefix [CHR 0xE2, CHR 0x80, CHR 0xA8] s \<or> prefix [CHR 0xE2, CHR 0x80, CHR 0xA9] s"

fun lazy_group :: "string \<Rightarrow> string option" where
  "lazy_group [] = None"
| "lazy_group (c # cs) =
     (if c = CHR '')'' then Some []
      else if line_terminator_at (c # cs) then None
      else map_option ((#) c) (lazy_group cs))"

fun match_group :: "string \<Rightarrow> string option" where
  "match_group [] = None"
| "match_group (c # cs) =
     (if c = CHR ''('' then
        (case lazy_group cs of Some g \<Rightarrow> Some g | None \<Rightarrow> match_group cs)
      else match_group cs)"

text \<open>The fixed labels of the description, as the bytes of the source file:
  "LHP", "So tiet", "Tiet", "Gio bat dau" (written with Vietnamese diacritics) and "GV".\<close>

definition label_so_tiet :: string where
  "label_so_tiet = ''S'' @ [CHR 0xE1, CHR 0xBB, CHR 0x91] @ '' ti'' @ [CHR 0xE1, CHR 0xBA, CHR 0xBF] @ ''t: ''"

definition label_tiet :: string where
  "label_tiet = ''Ti'' @ [CHR 0xE1, CHR 0xBA, CHR 0xBF] @ ''t: ''"

definition label_gio_bat_dau :: string where
  "label_gio_bat_dau = ''Gi'' @ [CHR 0xE1, CHR 0xBB, CHR 0x9D] @ '' b'' @ [CHR 0xE1, CHR 0xBA, CHR 0xAF]
     @ ''t '' @ [CHR 0xC4, CHR 0x91, CHR 0xE1, CHR 0xBA, CHR 0xA7] @ ''u: ''"

text \<open>
  toEvent. The array pattern \<open>[d, m, y]\<close> reads the first three pieces of the date, a
  missing piece being \<open>undefined\<close>, which is falsy; likewise \<open>[sp, ep]\<close>. The identifier is
  drawn only for a record that passes both checks.
\<close>

definition toEvent :: "runtime \<Rightarrow> nat \<Rightarrow> TMUScheduleItem \<Rightarrow> CalendarEvent option \<times> nat" where
  "toEvent rt k item =
     (let dmy = map Number (split ''/'' (Date item)) in
      case (nth_opt dmy 0, nth_opt dmy 1, nth_opt dmy 2) of
        (Some d, Some m, Some y) \<Rightarrow>
          if \<not> truthy d \<or> \<not> truthy m \<or> \<not> truthy y then (None, k)
          else
            (let se = map Number (split ''-'' (PeriodName item));
                 sp = nth_opt se 0;
                 ep = nth_opt se 1
             in case (period_at sp, period_at ep) of
                  (Some st, Some et) \<Rightarrow>
                    (let room = cleanRoom (RoomID item);
                         startTime = (case match_group (CaHoc item) of Some g \<Rightarrow> g | None \<Rightarrow> []);
                         desc =
                           ''LHP: '' @ ScheduleStudyUnitID item @ ''\<newline>'' @
                           label_so_tiet @ case_sum ToString id (NumberOfPeriods item) @ ''\<newline>'' @
                           label_tiet @ PeriodName item @ ''\<newline>'' @
                           label_gio_bat_dau @ startTime @ ''\<newline>'' @
                           ''GV: '' @ ProfessorName item;
                         (u, k') = IdFactory_uid rt k ''tmu''
                     in (Some \<lparr>uid = u,
                               title = CurriculumName item @ '' - '' @ room,
                               location = room,
                               description = desc,
                               start = toICSDate y m d (sh st) (sm st),
                               end' = toICSDate y m d (eh et) (em et)\<rparr>, k'))
                | _ \<Rightarrow> (None, k))
      | _ \<Rightarrow> (None, k))"

text \<open>map: every item through toEvent, in order, keeping the events that are not null.\<close>

fun map_toEvent :: "runtime \<Rightarrow> nat \<Rightarrow> TMUScheduleItem list \<Rightarrow> CalendarEvent option list \<times> nat" where
  "map_toEvent rt k [] = ([], k)"
| "map_toEvent rt k (item # items) =
     (let (e, k1) = toEvent rt k item;
          (es, k2) = map_toEvent rt k1 items
      in (e # es, k2))"

definition mapper_map :: "runtime \<Rightarrow> nat \<Rightarrow> TMUScheduleItem list \<Rightarrow> CalendarEvent list \<times> nat" where
  "mapper_map rt k items =
     (let (es, k1) = map_toEvent rt k items
      in (List.map_filter (\<lambda>e. e) es, k1))"

section \<open>ICS serializer\<close>

text \<open>\<open>s.replace(/c/g, r)\<close> for a one-character pattern \<open>c\<close> and a replacement \<open>r\<close> without
  \<open>$\<close>: every occurrence of \<open>c\<close> becomes \<open>r\<close>.\<close>

definition replace_all :: "char \<Rightarrow> string \<Rightarrow> string \<Rightarrow> string" where
  "replace_all c r s = concat (map (\<lambda>x. if x = c then r else [x]) s)"

definition backslash :: char where
  "backslash = CHR 0x5C"

definition escapeText :: "string \<Rightarrow> string" where
  "escapeText input =
     replace_all CHR '';'' [backslash, CHR '';'']
       (replace_all CHR '','' [backslash, CHR '','']
          (replace_all CHR ''\<newline>'' [backslash, CHR ''n'']
             (replace_all backslash [backslash, backslash] input)))"

definition TZID :: string where
  "TZID = ''Asia/Ho_Chi_Minh''"

definition serializeEvent :: "CalendarEvent \<Rightarrow> string" where
  "serializeEvent e =
     (let tz = TZID;
          summary = escapeText (title e);
          loc = escapeText (location e);
          desc = escapeText (description e)
      in ''BEGIN:VEVENT\<newline>'' @
         ''UID:'' @ uid e @ ''\<newline>'' @
         ''DTSTAMP:'' @ start e @ ''\<newline>'' @
         ''DTSTART;TZID='' @ tz @ '':'' @ start e @ ''\<newline>'' @
         ''DTEND;TZID='' @ tz @ '':'' @ end' e @ ''\<newline>'' @
         ''SUMMARY:'' @ summary @ ''\<newline>'' @
         ''LOCATION:'' @ loc @ ''\<newline>'' @
         ''DESCRIPTION:'' @ desc @ ''\<newline>'' @
         ''END:VEVENT\<newline>'')"

definition serialize :: "CalendarEvent list \<Rightarrow> string" where
  "serialize events =
     (let header =
            ''BEGIN:VCALENDAR\<newline>'' @
            ''VERSION:2.0\<newline>'' @
            ''CALSCALE:GREGORIAN\<newline>'' @
            ''PRODID:-//TMU//Schedule Exporter//VN\<newline>'' @
            ''BEGIN:VTIMEZONE\<newline>'' @
            ''TZID:'' @ TZID @ ''\<newline>'' @
            ''BEGIN:STANDARD\<newline>'' @
            ''DTSTART:19700101T000000\<newline>'' @
            ''TZOFFSETFROM:+0700\<newline>'' @
            ''TZOFFSETTO:+0700\<newline>'' @
            ''TZNAME:ICT\<newline>'' @
            ''END:STANDARD\<newline>'' @
            ''END:VTIMEZONE\<newline>'';
          body = concat (map serializeEvent events)
      in header @ body @ ''END:VCALENDAR'')"

text \<open>
  The exporter never decodes an escaped text. For the round trip of the escaping, the
  reverse of the four substitutions is read as a calendar reader reads it, left to right:
  a backslash and the character after it stand for the character they replaced.
\<close>

fun escapeChar :: "char \<Rightarrow> string" where
  "escapeChar c =
     (if c = backslash then [backslash, backslash]
      else if c = CHR ''\<newline>'' then [backslash, CHR ''n'']
      else if c = CHR '','' then [backslash, CHR '','']
      else if c = CHR '';'' then [backslash, CHR '';'']
      else [c])"

fun unescapeText :: "string \<Rightarrow> string" where
  "unescapeText (b # c # cs) =
     (if b = backslash \<and> c = backslash then backslash # unescapeText cs
      else if b = backslash \<and> c = CHR ''n'' then CHR ''\<newline>'' # unescapeText cs
      else if b = backslash \<and> c = CHR '','' then CHR '','' # unescapeText cs
      else if b = backslash \<and> c = CHR '';'' then CHR '';'' # unescapeText cs
      else b # unescapeText (c # cs))"
| "unescapeText cs = cs"

section \<open>Interceptor: captured credentials and week list\<close>

text \<open>
  The context holds the two secrets and the week list. The secrets are written by the
  replacement of \<open>setRequestHeader\<close> below; the week list is written by the load listener
  of a request to the week-list endpoint, and the statements start from the context it
  leaves. A week's fields are numbers, as the interface declares them.
\<close>

record WeekScheduleItem =
  TermID :: number
  YearStudy :: number
  Week :: number

record TMUInterceptorContext =
  apiKey :: "string option"
  authorization :: "string option"
  cachedWeeks :: "WeekScheduleItem list option"

text \<open>The context as constructed: nothing captured.\<close>

definition new_context :: TMUInterceptorContext where
  "new_context = \<lparr>apiKey = None, authorization = None, cachedWeeks = None\<rparr>"

text \<open>\<open>!s\<close> for a string or null: null and the empty string are falsy.\<close>

definition falsy :: "string option \<Rightarrow> bool" where
  "falsy s \<longleftrightarrow> s = None \<or> s = Some []"

definition getAuthHeaders :: "TMUInterceptorContext \<Rightarrow> (string \<times> string) list option" where
  "getAuthHeaders self =
     (case (apiKey self, authorization self) of
        (Some k, Some a) \<Rightarrow>
          if k = [] \<or> a = [] then None
          else Some [(''apikey'', k), (''authorization'', a), (''clientid'', ''tmu'')]
      | _ \<Rightarrow> None)"

definition getWeeks :: "TMUInterceptorContext \<Rightarrow> WeekScheduleItem list option" where
  "getWeeks self = cachedWeeks self"

text \<open>
  \<open>String.prototype.toLowerCase\<close>. The ASCII capitals become small letters, and so does
  the Kelvin sign U+212A, the one character outside ASCII whose lower case is an ASCII
  letter. Other bytes are kept: the result is only compared with ASCII names, and the
  comparison comes out as in JavaScript.
\<close>

definition lower_ascii :: "char \<Rightarrow> char" where
  "lower_ascii c =
     (case map_of (zip ''ABCDEFGHIJKLMNOPQRSTUVWXYZ'' ''abcdefghijklmnopqrstuvwxyz'') c of
        Some l \<Rightarrow> l
      | None \<Rightarrow> c)"

fun toLowerCase :: "string \<Rightarrow> string" where
  "toLowerCase [] = []"
| "toLowerCase (c # cs) =
     (if prefix [CHR 0xE2, CHR 0x84, CHR 0xAA] (c # cs) then CHR ''k'' # toLowerCase (drop 2 cs)
      else lower_ascii c # toLowerCase cs)"

text \<open>
  The replacement of \<open>XMLHttpRequest.prototype.setRequestHeader\<close>: it captures into the
  context \<open>self\<close>, then calls the original method on the request \<open>this\<close> with the same
  arguments and returns what it returns.
\<close>

definition setRequestHeader ::
  "('x \<Rightarrow> string \<Rightarrow> string \<Rightarrow> 'r) \<Rightarrow> TMUInterceptorContext \<Rightarrow> 'x \<Rightarrow> string \<Rightarrow> string
     \<Rightarrow> TMUInterceptorContext \<times> 'r" where
  "setRequestHeader originalSetHeader self this key val =
     (let lower = toLowerCase key;
          self1 = (if falsy (apiKey self) \<and> lower = ''apikey''
                   then self\<lparr>apiKey := Some val\<rparr> else self);
          self2 = (if falsy (authorization self1) \<and> lower = ''authorization''
                   then self1\<lparr>authorization := Some val\<rparr> else self1)
      in (self2, originalSetHeader this key val))"

text \<open>The context after a sequence of header-setting steps of the page, each a request,
  a header name and a header value.\<close>

fun setRequestHeaders ::
  "('x \<Rightarrow> string \<Rightarrow> string \<Rightarrow> 'r) \<Rightarrow> TMUInterceptorContext \<Rightarrow> ('x \<times> string \<times> string) list
     \<Rightarrow> TMUInterceptorContext" where
  "setRequestHeaders originalSetHeader self [] = self"
| "setRequestHeaders originalSetHeader self ((this, key, val) # calls) =
     setRequestHeaders originalSetHeader
       (fst (setRequestHeader originalSetHeader self this key val)) calls"

section \<open>HTTP client and schedule service\<close>

record TMUDrawingSchedulesResponse =
  ResultDataSchedule :: "TMUScheduleItem list option"

text \<open>What \<open>fetch\<close> gives for one request: it rejects, or it resolves to a response
  with a status and a body; \<open>json\<close> is the parsed body, \<open>None\<close> when parsing rejects.\<close>

record fetch_response =
  ok :: bool
  status :: nat
  json :: "TMUDrawingSchedulesResponse option"

datatype http_error = FetchRejected | HttpError nat string | JsonRejected

text \<open>FetchHttpClient.getJson, over the outcome of the fetch (\<open>None\<close>: rejected).\<close>

definition getJson ::
  "(string \<Rightarrow> (string \<times> string) list \<Rightarrow> fetch_response option) \<Rightarrow> string \<Rightarrow> (string \<times> string) list
     \<Rightarrow> http_error + TMUDrawingSchedulesResponse" where
  "getJson fetch url headers =
     (case fetch url headers of
        None \<Rightarrow> Inl FetchRejected
      | Some res \<Rightarrow>
          if \<not> ok res then Inl (HttpError (status res) url)
          else (case json res of None \<Rightarrow> Inl JsonRejected | Some data \<Rightarrow> Inr data))"

text \<open>\<open>encodeURIComponent\<close>: the unreserved characters stay, every other byte of the
  UTF-8 encoding becomes \<open>%XX\<close>.\<close>

definition uri_unreserved :: "char \<Rightarrow> bool" where
  "uri_unreserved c \<longleftrightarrow>
     (CHR ''A'' \<le> c \<and> c \<le> CHR ''Z'') \<or> (CHR ''a'' \<le> c \<and> c \<le> CHR ''z'') \<or>
     (CHR ''0'' \<le> c \<and> c \<le> CHR ''9'') \<or> c \<in> set ''-_.!~*()'' \<or> c = CHR 0x27"

definition encodeURIComponent :: "string \<Rightarrow> string" where
  "encodeURIComponent s =
     concat (map (\<lambda>c. if uri_unreserved c then [c]
                       else [CHR ''%'', ''0123456789ABCDEF'' ! (of_char c div 16),
                             ''0123456789ABCDEF'' ! (of_char c mod 16)]) s)"

definition API_BASE :: string where
  "API_BASE = ''https://tmuonlineapi.azurewebsites.net/api/student''"

definition schedule_url :: "WeekScheduleItem \<Rightarrow> string" where
  "schedule_url week =
     API_BASE @ ''/DrawingSchedules'' @
     ''?namhoc='' @ encodeURIComponent (ToString (YearStudy week)) @
     ''&hocky='' @ encodeURIComponent (ToString (TermID week)) @
     ''&tuan='' @ encodeURIComponent (ToString (Week week))"

text \<open>
  The task of one week (the body of the \<open>async\<close> arrow function): the records of the
  response, none when the field is missing, and none when the request fails. The client
  \<open>http\<close> is given the position of the week among the selected weeks, so that two
  requests for one URL may end differently.
\<close>

definition week_task ::
  "(nat \<Rightarrow> string \<Rightarrow> (string \<times> string) list \<Rightarrow> http_error + TMUDrawingSchedulesResponse)
     \<Rightarrow> (string \<times> string) list \<Rightarrow> nat \<times> WeekScheduleItem \<Rightarrow> TMUScheduleItem list" where
  "week_task http headers iw =
     (case http (fst iw) (schedule_url (snd iw)) headers of
        Inr data \<Rightarrow> (case ResultDataSchedule data of Some items \<Rightarrow> items | None \<Rightarrow> [])
      | Inl err \<Rightarrow> [])"

text \<open>
  \<open>Promise.all\<close> over tasks that all fulfil: the result array has one slot per task, a
  task's value is stored in the slot of its index when the task completes, and the array
  is delivered once every slot is filled. \<open>completion\<close> lists the indices of the tasks in
  the order in which they complete; \<open>None\<close> stands for a promise that stays pending.
\<close>

definition Promise_all :: "nat list \<Rightarrow> 'a list \<Rightarrow> 'a list option" where
  "Promise_all completion tasks =
     those (fold (\<lambda>i slots. if i < length slots then slots[i := Some (tasks ! i)] else slots)
              completion (replicate (length tasks) None))"

text \<open>The week filter: the weeks of the term and year of \<open>currentTerm\<close>.\<close>

definition termWeeks :: "WeekScheduleItem \<Rightarrow> WeekScheduleItem list \<Rightarrow> WeekScheduleItem list" where
  "termWeeks currentTerm weeks =
     filter (\<lambda>w. strict_equals (TermID w) (TermID currentTerm) \<and>
                 strict_equals (YearStudy w) (YearStudy currentTerm)) weeks"

text \<open>The notices shown with \<open>alert\<close>, as the bytes of the source file (Vietnamese):
  "week schedule not loaded yet", "apikey/authorization not captured yet",
  "no data to export (0 events)" and "export failed".\<close>

definition alert_weeks_not_loaded :: string where
  "alert_weeks_not_loaded =
     ''WeekSchedule ch'' @ [CHR 0xC6, CHR 0xB0] @ ''a '' @
     [CHR 0xC4, CHR 0x91, CHR 0xC6, CHR 0xB0, CHR 0xE1, CHR 0xBB, CHR 0xA3] @ ''c t'' @
     [CHR 0xE1, CHR 0xBA, CHR 0xA3] @ ''i. H'' @ [CHR 0xC3, CHR 0xA3] @ ''y m'' @
     [CHR 0xE1, CHR 0xBB, CHR 0x9F] @ '' trang TKB r'' @ [CHR 0xE1, CHR 0xBB, CHR 0x93] @
     ''i refresh l'' @ [CHR 0xE1, CHR 0xBA, CHR 0xA1] @ ''i.''"

definition alert_no_credentials :: string where
  "alert_no_credentials =
     ''Ch'' @ [CHR 0xC6, CHR 0xB0] @ ''a b'' @ [CHR 0xE1, CHR 0xBA, CHR 0xAF] @ ''t '' @
     [CHR 0xC4, CHR 0x91, CHR 0xC6, CHR 0xB0, CHR 0xE1, CHR 0xBB, CHR 0xA3] @
     ''c apikey/authorization. H'' @ [CHR 0xC3, CHR 0xA3] @ ''y t'' @
     [CHR 0xE1, CHR 0xBA, CHR 0xA3] @ ''i l'' @ [CHR 0xE1, CHR 0xBA, CHR 0xA1] @ ''i trang v'' @
     [CHR 0xC3, CHR 0xA0] @ '' m'' @ [CHR 0xE1, CHR 0xBB, CHR 0x9F] @ '' trang TKB tr'' @
     [CHR 0xC6, CHR 0xB0, CHR 0xE1, CHR 0xBB, CHR 0x9B] @ ''c khi export.''"

definition alert_nothing_to_export :: string where
  "alert_nothing_to_export =
     ''Kh'' @ [CHR 0xC3, CHR 0xB4] @ ''ng c'' @ [CHR 0xC3, CHR 0xB3] @ '' d'' @
     [CHR 0xE1, CHR 0xBB, CHR 0xAF] @ '' li'' @ [CHR 0xE1, CHR 0xBB, CHR 0x87] @ ''u '' @
     [CHR 0xC4, CHR 0x91, CHR 0xE1, CHR 0xBB, CHR 0x83] @ '' xu'' @
     [CHR 0xE1, CHR 0xBA, CHR 0xA5] @ ''t (0 events).''"

definition alert_export_failed :: string where
  "alert_export_failed =
     ''Xu'' @ [CHR 0xE1, CHR 0xBA, CHR 0xA5] @ ''t l'' @ [CHR 0xE1, CHR 0xBB, CHR 0x8B] @
     ''ch th'' @ [CHR 0xE1, CHR 0xBA, CHR 0xA5] @ ''t b'' @ [CHR 0xE1, CHR 0xBA, CHR 0xA1] @
     ''i. M'' @ [CHR 0xE1, CHR 0xBB, CHR 0x9F] @ '' Console '' @
     [CHR 0xC4, CHR 0x91, CHR 0xE1, CHR 0xBB, CHR 0x83] @ '' xem chi ti'' @
     [CHR 0xE1, CHR 0xBA, CHR 0xBF] @ ''t.''"

text \<open>
  TMUScheduleService.loadCurrentTermSchedules. The result is the list of alerts shown and
  the value the returned promise fulfils with (\<open>None\<close>: it stays pending, which happens
  only while a fetch has not completed). Nothing in the function can throw: every failure
  of a request is caught inside the task of its week.
\<close>

definition loadCurrentTermSchedules ::
  "TMUInterceptorContext
     \<Rightarrow> (nat \<Rightarrow> string \<Rightarrow> (string \<times> string) list \<Rightarrow> http_error + TMUDrawingSchedulesResponse)
     \<Rightarrow> nat list \<Rightarrow> string list \<times> TMUScheduleItem list option" where
  "loadCurrentTermSchedules ctx http completion =
     (case getWeeks ctx of
        None \<Rightarrow> ([alert_weeks_not_loaded], Some [])
      | Some [] \<Rightarrow> ([alert_weeks_not_loaded], Some [])
      | Some (currentTerm # rest) \<Rightarrow>
          (case getAuthHeaders ctx of
             None \<Rightarrow> ([alert_no_credentials], Some [])
           | Some headers \<Rightarrow>
               (let weeks = currentTerm # rest;
                    selected = termWeeks currentTerm weeks;
                    tasks = map (week_task http headers) (enumerate 0 selected)
                in ([], map_option concat (Promise_all completion tasks)))))"

section \<open>Export orchestrator\<close>

text \<open>
  What the user sees of one export: the alerts, the errors written to the console, the
  calls of the file downloader (file name, MIME type, content) and the export button.
\<close>

record 'e page =
  alerts :: "string list"
  console_errors :: "'e list"
  downloads :: "(string \<times> string \<times> string) list"
  btn_textContent :: string
  btn_disabled :: bool

text \<open>
  TMUExporterApp.exportCurrentTerm, wired as the bootstrap wires it (the schedule service,
  the mapper and the serializer above). The downloader is the browser's: \<open>downloader\<close> tells
  whether a call of \<open>downloadTextFile\<close> throws, and what. \<open>None\<close> stands for an export whose
  loader promise stays pending.
\<close>

definition exportCurrentTerm ::
  "TMUInterceptorContext
     \<Rightarrow> (nat \<Rightarrow> string \<Rightarrow> (string \<times> string) list \<Rightarrow> http_error + TMUDrawingSchedulesResponse)
     \<Rightarrow> nat list \<Rightarrow> runtime \<Rightarrow> nat
     \<Rightarrow> (string \<Rightarrow> string \<Rightarrow> string \<Rightarrow> 'e option)
     \<Rightarrow> 'e page \<Rightarrow> ('e page \<times> nat) option" where
  "exportCurrentTerm ctx http completion rt k downloader pg =
     (let pg1 = pg\<lparr>btn_textContent := [CHR 0xE2, CHR 0x8C, CHR 0x9B] @ ''...'', btn_disabled := True\<rparr>;
          (shown, loaded) = loadCurrentTermSchedules ctx http completion;
          pg2 = pg1\<lparr>alerts := alerts pg1 @ shown\<rparr>
      in case loaded of
           None \<Rightarrow> None
         | Some schedules \<Rightarrow>
             (let (events, k1) = mapper_map rt k schedules;
                  pg3 =
                    (if length events = 0 then pg2\<lparr>alerts := alerts pg2 @ [alert_nothing_to_export]\<rparr>
                     else
                       (let icsContent = serialize events;
                            pg4 = pg2\<lparr>downloads := downloads pg2 @
                                    [(''tmu-current-term.ics'', ''text/calendar;charset=utf-8;'', icsContent)]\<rparr>
                        in case downloader ''tmu-current-term.ics'' ''text/calendar;charset=utf-8;'' icsContent of
                             None \<Rightarrow> pg4
                           | Some err \<Rightarrow>
                               pg4\<lparr>console_errors := console_errors pg4 @ [err],
                                   alerts := alerts pg4 @ [alert_export_failed]\<rparr>))
              in Some (pg3\<lparr>btn_textContent := ''Export'', btn_disabled := False\<rparr>, k1)))"

section \<open>Notions used in the statements\<close>

text \<open>The day, month and year components that toEvent reads from the date field, and
  the start and end period indices it reads from the period-range field.\<close>

definition date_components :: "TMUScheduleItem \<Rightarrow> number option \<times> number option \<times> number option" where
  "date_components item =
     (let dmy = map Number (split ''/'' (Date item))
      in (nth_opt dmy 0, nth_opt dmy 1, nth_opt dmy 2))"

definition period_indices :: "TMUScheduleItem \<Rightarrow> number option \<times> number option" where
  "period_indices item =
     (let se = map Number (split ''-'' (PeriodName item))
      in (nth_opt se 0, nth_opt se 1))"

text \<open>A component is falsy when it is missing, unparsable (NaN) or zero.\<close>

definition falsy_component :: "number option \<Rightarrow> bool" where
  "falsy_component c = (case c of None \<Rightarrow> True | Some n \<Rightarrow> \<not> truthy n)"

text \<open>A record is valid when no date component is falsy and both period lookups hit.\<close>

definition valid_record :: "TMUScheduleItem \<Rightarrow> bool" where
  "valid_record item =
     (case (date_components item, period_indices item) of
        ((d, m, y), (sp, ep)) \<Rightarrow>
          \<not> falsy_component d \<and> \<not> falsy_component m \<and> \<not> falsy_component y \<and>
          period_at sp \<noteq> None \<and> period_at ep \<noteq> None)"

text \<open>Whether the request of a selected week (with its position) succeeded.\<close>

definition week_succeeded ::
  "(nat \<Rightarrow> string \<Rightarrow> (string \<times> string) list \<Rightarrow> http_error + TMUDrawingSchedulesResponse)
     \<Rightarrow> (string \<times> string) list \<Rightarrow> nat \<times> WeekScheduleItem \<Rightarrow> bool" where
  "week_succeeded http headers iw =
     (case http (fst iw) (schedule_url (snd iw)) headers of Inr data \<Rightarrow> True | Inl err \<Rightarrow> False)"

section \<open>Sample inputs\<close>

definition sample_item :: TMUScheduleItem where
  "sample_item =
     \<lparr>Date = ''25/02/2026'', PeriodName = ''1-3'', RoomID = ''P101</br>extra'',
      CaHoc = ''(07:00)'', ScheduleStudyUnitID = ''2511ECIT0911'',
      NumberOfPeriods = Inl (Integer 3), ProfessorName = ''N. V. A'',
      CurriculumName = ''Tin hoc''\<rparr>"

definition sample_runtime :: runtime where
  "sample_runtime =
     \<lparr>crypto_randomUUID = Some (\<lambda>k. ''uuid-'' @ digits_of_nat k),
      Date_now = (\<lambda>k. Integer 0), Math_random = (\<lambda>k. Integer 0)\<rparr>"

definition sample_text :: string where
  "sample_text = ''a,b;c\<newline>d'' @ [backslash] @ ''n''"


definition no_original :: "unit \<Rightarrow> string \<Rightarrow> string \<Rightarrow> unit" where
  "no_original this key val = ()"

definition sample_context :: TMUInterceptorContext where
  "sample_context = \<lparr>apiKey = Some [], authorization = Some ''Bearer t1'', cachedWeeks = None\<rparr>"

definition sample_calls :: "(unit \<times> string \<times> string) list" where
  "sample_calls =
     [((), ''Accept'', ''application/json''), ((), ''ApiKey'', ''''), ((), ''apikey'', ''k1''),
      ((), ''Authorization'', ''Bearer t1''), ((), ''apikey'', ''k2''),
      ((), ''authorization'', ''Bearer t2'')]"

definition sample_reversed_item :: TMUScheduleItem where
  "sample_reversed_item = sample_item\<lparr>PeriodName := ''3-1''\<rparr>"

definition week :: "int \<Rightarrow> int \<Rightarrow> int \<Rightarrow> WeekScheduleItem" where
  "week t y w = \<lparr>TermID = Integer t, YearStudy = Integer y, Week = Integer w\<rparr>"

definition sample_weeks :: "WeekScheduleItem list" where
  "sample_weeks = [week 2 2025 21, week 1 2025 1, week 2 2025 22, week 2 2024 21, week 2 2025 23]"

definition sample_loaded_context :: TMUInterceptorContext where
  "sample_loaded_context =
     \<lparr>apiKey = Some ''k1'', authorization = Some ''Bearer t1'', cachedWeeks = Some sample_weeks\<rparr>"

text \<open>Three requests: the first and the third succeed, the second ends with HTTP 500.\<close>

definition sample_fetch :: "nat \<Rightarrow> string \<Rightarrow> (string \<times> string) list \<Rightarrow> fetch_response option" where
  "sample_fetch i url headers =
     (if i = 0 then
        Some \<lparr>ok = True, status = 200, json = Some \<lparr>ResultDataSchedule = Some [sample_item]\<rparr>\<rparr>
      else if i = 1 then Some \<lparr>ok = False, status = 500, json = None\<rparr>
      else
        Some \<lparr>ok = True, status = 200,
              json = Some \<lparr>ResultDataSchedule = Some [sample_reversed_item]\<rparr>\<rparr>)"

definition sample_http ::
  "nat \<Rightarrow> string \<Rightarrow> (string \<times> string) list \<Rightarrow> http_error + TMUDrawingSchedulesResponse" where
  "sample_http i url headers = getJson (sample_fetch i) url headers"

definition failing_http ::
  "nat \<Rightarrow> string \<Rightarrow> (string \<times> string) list \<Rightarrow> http_error + TMUDrawingSchedulesResponse" where
  "failing_http i url headers = Inl FetchRejected"

definition sample_page :: "unit page" where
  "sample_page =
     \<lparr>alerts = [], console_errors = [], downloads = [], btn_textContent = ''Export'',
      btn_disabled = False\<rparr>"

definition never_fails :: "string \<Rightarrow> string \<Rightarrow> string \<Rightarrow> unit option" where
  "never_fails filename mime content = None"

definition sample_context_no_token :: TMUInterceptorContext where
  "sample_context_no_token = \<lparr>apiKey = Some ''k1'', authorization = Some [], cachedWeeks = None\<rparr>"

definition sample_context_weeks_only :: TMUInterceptorContext where
  "sample_context_weeks_only =
     \<lparr>apiKey = None, authorization = None, cachedWeeks = Some sample_weeks\<rparr>"

definition rejecting_fetch :: "string \<Rightarrow> (string \<times> string) list \<Rightarrow> fetch_response option" where
  "rejecting_fetch url headers = None"

definition sample_headers :: "(string \<times> string) list" where
  "sample_headers = [(''apikey'', ''k1''), (''authorization'', ''Bearer t1''), (''clientid'', ''tmu'')]"

section \<open>Evaluation of the library functions\<close>

lemmas trim_defs = trim_def trimStart_def trimEnd_def white_space_def strip_leading.simps

lemmas Number_defs = Number_def trim_defs unsigned_decimal_def is_digit_def digits_value_def
  digit_value_def scaled_def

lemmas ToString_defs = positive_to_string_def digits_of_nat.simps digits_to_string_def
  strip_trailing_zeros_def padStart_def pad2_def toICSDate_def

lemma Number_scenario:
  "Number ''25'' = Integer 25" "Number ''02'' = Integer 2" "Number ''2026'' = Integer 2026"
  "Number ''1'' = Integer 1" "Number ''3'' = Integer 3" "Number ''5'' = Integer 5"
  by (simp_all add: Number_defs)


lemma toICSDate_scenario:
  "toICSDate (Integer 2026) (Integer 2) (Integer 25) (Integer 6) (Integer 30) = ''20260225T063000''"
  "toICSDate (Integer 2026) (Integer 2) (Integer 25) (Integer 9) (Integer 10) = ''20260225T091000''"
  "toICSDate (Integer 2026) (Integer 2) (Integer 25) (Integer 8) (Integer 20) = ''20260225T082000''"
  "toICSDate (Integer 2026) (Integer 2) (Integer 25) (Integer 7) (Integer 20) = ''20260225T072000''"
  by (simp_all add: ToString_defs)

lemma cleanRoom_scenario: "cleanRoom ''P101</br>extra'' = ''P101''"
  by (simp add: cleanRoom_def trim_defs)

text \<open>A split always has a first piece, and a string without the separator is its own
  single piece.\<close>

lemma split_not_Nil: "split sep s \<noteq> []"
  by (induction s) (auto split: list.splits)

lemma split_no_separator: "c \<notin> set s \<Longrightarrow> split [c] s = [s]"
  by (induction s) auto

section \<open>Mapper\<close>

text \<open>
  C1. A raw record with Date "25/02/2026", PeriodName "1-3", RoomID "P101</br>extra" and a
  CaHoc that contains "(07:00)", whatever its other fields, the runtime and the count of
  identifiers drawn so far: the mapper produces one event, with location "P101", start
  20260225T063000 (period 1 starts at 06:30) and end 20260225T091000 (period 3 ends at
  09:10).
\<close>

theorem scenario_1_event:
  "let r = item\<lparr>Date := ''25/02/2026'', PeriodName := ''1-3'', RoomID := ''P101</br>extra'',
                  CaHoc := pre @ ''(07:00)'' @ post\<rparr>;
       out = fst (mapper_map rt k [r])
   in map location out = [''P101''] \<and>
      map start out = [''20260225T063000''] \<and>
      map end' out = [''20260225T091000'']"
  by (simp add: mapper_map_def toEvent_def nth_opt_def Number_scenario period_at_def
      PERIOD_TIME_def toICSDate_scenario cleanRoom_scenario IdFactory_uid_def Let_def
      split: prod.splits)

theorem scenario_1_event_witness:
  "map location (fst (mapper_map sample_runtime 0 [sample_item])) = [''P101''] \<and>
   map start (fst (mapper_map sample_runtime 0 [sample_item])) = [''20260225T063000''] \<and>
   map end' (fst (mapper_map sample_runtime 0 [sample_item])) = [''20260225T091000'']"
  using scenario_1_event [where item = sample_item and pre = "[]" and post = "[]"
      and rt = sample_runtime and k = 0]
  by (simp add: Let_def sample_item_def)


lemma toEvent_valid: "valid_record item \<Longrightarrow> \<exists>e. toEvent rt k item = (Some e, Suc k)"
  by (auto simp: valid_record_def date_components_def period_indices_def falsy_component_def
      toEvent_def IdFactory_uid_def Let_def split: option.splits prod.splits)


lemma mapper_map_Nil: "mapper_map rt k [] = ([], k)"
  by (simp add: mapper_map_def)




lemma valid_sample_item: "valid_record sample_item"
  by (simp add: valid_record_def date_components_def period_indices_def falsy_component_def
      sample_item_def nth_opt_def Number_scenario period_at_def PERIOD_TIME_def)




text \<open>
  C10. A period-range field without "-" splits into one piece, so the end period index is
  undefined, the end lookup misses, toEvent gives no event and the mapper drops the
  record. The sample shows it for "5", whose single index is a key of the table.
\<close>

theorem single_period_dropped:
  assumes "CHR ''-'' \<notin> set (PeriodName item)"
  shows "snd (period_indices item) = None \<and>
         period_at (snd (period_indices item)) = None \<and>
         fst (toEvent rt k item) = None \<and>
         fst (mapper_map rt k [item]) = []"
proof -
  have se: "split ''-'' (PeriodName item) = [PeriodName item]"
    using assms by (rule split_no_separator)
  have ep: "snd (period_indices item) = None"
    by (simp add: period_indices_def se nth_opt_def)
  have ev: "toEvent rt k item = (None, k)"
    by (simp add: toEvent_def se nth_opt_def period_at_def Let_def split: option.splits)
  show ?thesis
    by (simp add: ep ev period_at_def mapper_map_def)
qed

theorem single_period_dropped_witness:
  "period_at (fst (period_indices (sample_item\<lparr>PeriodName := ''5''\<rparr>))) =
     Some \<lparr>sh = Integer 10, sm = Integer 15, eh = Integer 11, em = Integer 5\<rparr> \<and>
   snd (period_indices (sample_item\<lparr>PeriodName := ''5''\<rparr>)) = None \<and>
   fst (toEvent sample_runtime 0 (sample_item\<lparr>PeriodName := ''5''\<rparr>)) = None \<and>
   fst (mapper_map sample_runtime 0 [sample_item\<lparr>PeriodName := ''5''\<rparr>]) = []"
proof -
  have "CHR ''-'' \<notin> set (PeriodName (sample_item\<lparr>PeriodName := ''5''\<rparr>))" by simp
  from single_period_dropped [OF this, of sample_runtime 0]
  show ?thesis
    by (simp add: period_indices_def nth_opt_def Number_scenario period_at_def PERIOD_TIME_def)
qed

text \<open>Strings with a common front compare as their rests; the start of a period of the
  table is before the end of the same or a later period.\<close>

lemma append_less_cancel: "p @ (a::string) < p @ b \<longleftrightarrow> a < b"
  by (induction p) auto

lemma period_times_ordered:
  assumes "PERIOD_TIME (Integer i) = Some st" and "PERIOD_TIME (Integer j) = Some et" and "i \<le> j"
  shows "pad2 (sh st) @ pad2 (sm st) @ ''00'' < pad2 (eh et) @ pad2 (em et) @ ''00''"
  using assms by (auto simp: PERIOD_TIME_def ToString_defs split: if_splits)

text \<open>
  C6, as the code has it. When both lookups succeed, the start and end period indices are
  integers i and j of the table; if i is at most j, the start timestamp is before the end
  timestamp (as strings, which for these timestamps of one date and equal length is the
  order in time).
\<close>

theorem start_before_end:
  assumes ev: "fst (toEvent rt k item) = Some e"
    and ix: "period_indices item = (Some (Integer i), Some (Integer j))"
    and le: "i \<le> j"
  shows "start e < end' e"
proof -
  from ix have sp: "nth_opt (map Number (split ''-'' (PeriodName item))) 0 = Some (Integer i)"
    and ep: "nth_opt (map Number (split ''-'' (PeriodName item))) (Suc 0) = Some (Integer j)"
    by (simp_all add: period_indices_def Let_def)
  from ev obtain d m y st et where
    st: "PERIOD_TIME (Integer i) = Some st" and et: "PERIOD_TIME (Integer j) = Some et" and
    s: "start e = toICSDate y m d (sh st) (sm st)" and t: "end' e = toICSDate y m d (eh et) (em et)"
    by (auto simp: toEvent_def sp ep period_at_def IdFactory_uid_def Let_def
        split: option.splits if_splits prod.splits)
  have "ToString y @ pad2 m @ pad2 d @ ''T'' @ pad2 (sh st) @ pad2 (sm st) @ ''00'' =
        (ToString y @ pad2 m @ pad2 d @ ''T'') @ (pad2 (sh st) @ pad2 (sm st) @ ''00'')"
    and "ToString y @ pad2 m @ pad2 d @ ''T'' @ pad2 (eh et) @ pad2 (em et) @ ''00'' =
        (ToString y @ pad2 m @ pad2 d @ ''T'') @ (pad2 (eh et) @ pad2 (em et) @ ''00'')"
    by simp_all
  then show ?thesis
    using period_times_ordered [OF st et le]
    by (simp only: s t toICSDate_def append_less_cancel)
qed

theorem start_before_end_witness:
  "fst (toEvent sample_runtime 0 sample_item) \<noteq> None \<and>
   period_indices sample_item = (Some (Integer 1), Some (Integer 3)) \<and>
   start (the (fst (toEvent sample_runtime 0 sample_item))) <
   end' (the (fst (toEvent sample_runtime 0 sample_item)))"
proof -
  have ix: "period_indices sample_item = (Some (Integer 1), Some (Integer 3))"
    by (simp add: period_indices_def sample_item_def nth_opt_def Number_scenario)
  obtain e where ev: "fst (toEvent sample_runtime 0 sample_item) = Some e"
    using toEvent_valid [OF valid_sample_item, of sample_runtime 0] by auto
  from start_before_end [OF ev ix] ev ix show ?thesis by simp
qed

text \<open>
  C6, as stated, fails. For the period range "3-1" both lookups succeed, and the event
  starts at 08:20 (the start of period 3) and ends at 07:20 (the end of period 1): the
  start is not before the end.
\<close>

theorem start_after_end_counterexample:
  "fst (toEvent sample_runtime 0 sample_reversed_item) \<noteq> None \<and>
   period_at (fst (period_indices sample_reversed_item)) \<noteq> None \<and>
   period_at (snd (period_indices sample_reversed_item)) \<noteq> None \<and>
   map start (fst (mapper_map sample_runtime 0 [sample_reversed_item])) = [''20260225T082000''] \<and>
   map end' (fst (mapper_map sample_runtime 0 [sample_reversed_item])) = [''20260225T072000''] \<and>
   \<not> start (the (fst (toEvent sample_runtime 0 sample_reversed_item))) <
       end' (the (fst (toEvent sample_runtime 0 sample_reversed_item)))"
  by (simp add: mapper_map_def toEvent_def nth_opt_def Number_scenario period_at_def
      PERIOD_TIME_def toICSDate_scenario cleanRoom_scenario IdFactory_uid_def Let_def
      sample_reversed_item_def sample_item_def period_indices_def
      split: prod.splits)

section \<open>Serializer\<close>

lemma replace_all_simps [simp]:
  "replace_all c r [] = []"
  "replace_all c r (x # s) = (if x = c then r else [x]) @ replace_all c r s"
  by (simp_all add: replace_all_def)

lemma escapeText_Nil: "escapeText [] = []"
  by (simp add: escapeText_def)

lemma escapeText_Cons: "escapeText (c # s) = escapeChar c @ escapeText s"
  by (simp add: escapeText_def backslash_def replace_all_def)

lemma escapeText_chars: "escapeText s = concat (map escapeChar s)"
  by (induction s) (simp_all add: escapeText_Nil escapeText_Cons del: escapeChar.simps)

lemma unescapeText_plain: "c \<noteq> backslash \<Longrightarrow> unescapeText (c # cs) = c # unescapeText cs"
  by (cases cs) simp_all

lemma unescapeText_escapeChar: "unescapeText (escapeChar c @ t) = c # unescapeText t"
  by (simp add: unescapeText_plain backslash_def)

lemma unescapeText_escapeText: "unescapeText (escapeText s) = s"
  by (induction s)
    (simp_all add: escapeText_Nil escapeText_Cons unescapeText_escapeChar del: escapeChar.simps)

text \<open>
  C3. escapeText is the four substitutions in the order backslash, newline, comma,
  semicolon. Each character of the input is escaped once: the result is the input with
  every character replaced by its own escape, so the backslashes that a later substitution
  writes are never escaped again. Reading the result back, a backslash and its follower
  as the character they stand for, gives the input, for every string (those with other
  control characters included). serializeEvent writes the title, the location and the
  description through escapeText.
\<close>

theorem escapeText_round_trip:
  "escapeText s =
     replace_all CHR '';'' [backslash, CHR '';'']
       (replace_all CHR '','' [backslash, CHR '','']
          (replace_all CHR ''\<newline>'' [backslash, CHR ''n'']
             (replace_all backslash [backslash, backslash] s))) \<and>
   escapeText s = concat (map escapeChar s) \<and>
   unescapeText (escapeText s) = s \<and>
   serializeEvent e =
     ''BEGIN:VEVENT\<newline>'' @ ''UID:'' @ uid e @ ''\<newline>'' @
     ''DTSTAMP:'' @ start e @ ''\<newline>'' @
     ''DTSTART;TZID=Asia/Ho_Chi_Minh:'' @ start e @ ''\<newline>'' @
     ''DTEND;TZID=Asia/Ho_Chi_Minh:'' @ end' e @ ''\<newline>'' @
     ''SUMMARY:'' @ escapeText (title e) @ ''\<newline>'' @
     ''LOCATION:'' @ escapeText (location e) @ ''\<newline>'' @
     ''DESCRIPTION:'' @ escapeText (description e) @ ''\<newline>'' @
     ''END:VEVENT\<newline>''"
proof (intro conjI)
  show "escapeText s =
     replace_all CHR '';'' [backslash, CHR '';'']
       (replace_all CHR '','' [backslash, CHR '','']
          (replace_all CHR ''\<newline>'' [backslash, CHR ''n'']
             (replace_all backslash [backslash, backslash] s)))"
    by (simp only: escapeText_def)
  show "escapeText s = concat (map escapeChar s)"
    by (rule escapeText_chars)
  show "unescapeText (escapeText s) = s"
    by (rule unescapeText_escapeText)
  show "serializeEvent e =
     ''BEGIN:VEVENT\<newline>'' @ ''UID:'' @ uid e @ ''\<newline>'' @
     ''DTSTAMP:'' @ start e @ ''\<newline>'' @
     ''DTSTART;TZID=Asia/Ho_Chi_Minh:'' @ start e @ ''\<newline>'' @
     ''DTEND;TZID=Asia/Ho_Chi_Minh:'' @ end' e @ ''\<newline>'' @
     ''SUMMARY:'' @ escapeText (title e) @ ''\<newline>'' @
     ''LOCATION:'' @ escapeText (location e) @ ''\<newline>'' @
     ''DESCRIPTION:'' @ escapeText (description e) @ ''\<newline>'' @
     ''END:VEVENT\<newline>''"
    by (simp add: serializeEvent_def TZID_def)
qed

theorem escapeText_round_trip_witness:
  "escapeText sample_text =
     ''a'' @ [backslash] @ '',b'' @ [backslash] @ '';c'' @ [backslash] @ ''nd'' @
     [backslash, backslash] @ ''n'' \<and>
   unescapeText (escapeText sample_text) = sample_text"
  using escapeText_round_trip [of sample_text]
  by (simp add: sample_text_def backslash_def)

section \<open>Interceptor\<close>

lemma setRequestHeader_apiKey:
  "apiKey (fst (setRequestHeader orig self this key val)) =
     (if falsy (apiKey self) \<and> toLowerCase key = ''apikey'' then Some val else apiKey self)"
  by (simp add: setRequestHeader_def Let_def)

lemma setRequestHeader_authorization:
  "authorization (fst (setRequestHeader orig self this key val)) =
     (if falsy (authorization self) \<and> toLowerCase key = ''authorization'' then Some val
      else authorization self)"
  by (simp add: setRequestHeader_def Let_def)

lemma apiKey_kept:
  "apiKey self = Some v \<Longrightarrow> v \<noteq> [] \<Longrightarrow> apiKey (setRequestHeaders orig self calls) = Some v"
  by (induction orig self calls rule: setRequestHeaders.induct)
    (simp_all add: setRequestHeader_apiKey falsy_def)

lemma authorization_kept:
  "authorization self = Some v \<Longrightarrow> v \<noteq> [] \<Longrightarrow>
   authorization (setRequestHeaders orig self calls) = Some v"
  by (induction orig self calls rule: setRequestHeaders.induct)
    (simp_all add: setRequestHeader_authorization falsy_def)

lemma apiKey_first_nonempty:
  "falsy (apiKey self) \<Longrightarrow>
   find (\<lambda>(this, key, val). toLowerCase key = ''apikey'' \<and> val \<noteq> []) calls = Some (x, k, v) \<Longrightarrow>
   apiKey (setRequestHeaders orig self calls) = Some v"
proof (induction orig self calls rule: setRequestHeaders.induct)
  case (1 orig self)
  then show ?case by simp
next
  case (2 orig self this key val calls)
  show ?case
  proof (cases "toLowerCase key = ''apikey'' \<and> val \<noteq> []")
    case True
    with "2.prems" have "v = val" by simp
    with True "2.prems"(1) show ?thesis
      by (simp add: apiKey_kept setRequestHeader_apiKey)
  next
    case False
    with "2.prems"
    have f: "find (\<lambda>(this, key, val). toLowerCase key = ''apikey'' \<and> val \<noteq> []) calls =
        Some (x, k, v)"
      by auto
    from False "2.prems"(1)
    have "falsy (apiKey (fst (setRequestHeader orig self this key val)))"
      by (auto simp: setRequestHeader_apiKey falsy_def)
    from "2.IH" [OF this f] show ?thesis by simp
  qed
qed

lemma authorization_first_nonempty:
  "falsy (authorization self) \<Longrightarrow>
   find (\<lambda>(this, key, val). toLowerCase key = ''authorization'' \<and> val \<noteq> []) calls =
     Some (x, k, v) \<Longrightarrow>
   authorization (setRequestHeaders orig self calls) = Some v"
proof (induction orig self calls rule: setRequestHeaders.induct)
  case (1 orig self)
  then show ?case by simp
next
  case (2 orig self this key val calls)
  show ?case
  proof (cases "toLowerCase key = ''authorization'' \<and> val \<noteq> []")
    case True
    with "2.prems" have "v = val" by simp
    with True "2.prems"(1) show ?thesis
      by (simp add: authorization_kept setRequestHeader_authorization)
  next
    case False
    with "2.prems"
    have f: "find (\<lambda>(this, key, val). toLowerCase key = ''authorization'' \<and> val \<noteq> []) calls =
        Some (x, k, v)"
      by auto
    from False "2.prems"(1)
    have "falsy (authorization (fst (setRequestHeader orig self this key val)))"
      by (auto simp: setRequestHeader_authorization falsy_def)
    from "2.IH" [OF this f] show ?thesis by simp
  qed
qed

text \<open>
  C7, as the code has it. A field that holds a non-empty value keeps it through every
  later header-setting step. Starting from a field that is null or empty, the value stored
  after a sequence of steps is that of the first step whose lower-cased header name is the
  secret's name and whose value is not empty. One step stores the value as it is given,
  when the field is null or empty and the lower-cased name matches, and leaves the field
  alone otherwise.
\<close>

theorem first_nonempty_secret_wins:
  "(apiKey self = Some v \<and> v \<noteq> [] \<longrightarrow> apiKey (setRequestHeaders orig self calls) = Some v) \<and>
   (authorization self = Some v \<and> v \<noteq> [] \<longrightarrow>
      authorization (setRequestHeaders orig self calls) = Some v) \<and>
   (falsy (apiKey self) \<and>
    find (\<lambda>(this, key, val). toLowerCase key = ''apikey'' \<and> val \<noteq> []) calls = Some (x, k, v) \<longrightarrow>
      apiKey (setRequestHeaders orig self calls) = Some v) \<and>
   (falsy (authorization self) \<and>
    find (\<lambda>(this, key, val). toLowerCase key = ''authorization'' \<and> val \<noteq> []) calls =
      Some (x, k, v) \<longrightarrow>
      authorization (setRequestHeaders orig self calls) = Some v) \<and>
   apiKey (fst (setRequestHeader orig self this key val)) =
     (if falsy (apiKey self) \<and> toLowerCase key = ''apikey'' then Some val else apiKey self) \<and>
   authorization (fst (setRequestHeader orig self this key val)) =
     (if falsy (authorization self) \<and> toLowerCase key = ''authorization'' then Some val
      else authorization self)"
  by (intro conjI impI)
    (simp_all add: apiKey_kept authorization_kept apiKey_first_nonempty
      authorization_first_nonempty setRequestHeader_apiKey setRequestHeader_authorization)

theorem first_nonempty_secret_wins_witness:
  "apiKey (setRequestHeaders no_original new_context sample_calls) = Some ''k1'' \<and>
   authorization (setRequestHeaders no_original new_context sample_calls) = Some ''Bearer t1'' \<and>
   apiKey (setRequestHeaders no_original sample_loaded_context [((), ''apikey'', ''k2'')]) =
     Some ''k1'' \<and>
   authorization (setRequestHeaders no_original sample_loaded_context
     [((), ''authorization'', ''Bearer t2'')]) = Some ''Bearer t1''"
  using first_nonempty_secret_wins [of new_context "''k1''" no_original sample_calls "()"
      "''apikey''"]
    first_nonempty_secret_wins [of new_context "''Bearer t1''" no_original sample_calls "()"
      "''Authorization''"]
    first_nonempty_secret_wins [of sample_loaded_context "''k1''" no_original
      "[((), ''apikey'', ''k2'')]"]
    first_nonempty_secret_wins [of sample_loaded_context "''Bearer t1''" no_original
      "[((), ''authorization'', ''Bearer t2'')]"]
  by (simp add: new_context_def sample_loaded_context_def sample_calls_def falsy_def
      lower_ascii_def)

text \<open>
  C7, as stated, fails. The page sets the header apikey to the empty string and then to
  "k2": the first-seen value, the empty string, is stored, and the second step overwrites
  it.
\<close>

theorem secret_overwritten_counterexample:
  "apiKey (setRequestHeaders no_original new_context [((), ''apikey'', '''')]) = Some '''' \<and>
   apiKey (setRequestHeaders no_original new_context
      [((), ''apikey'', ''''), ((), ''apikey'', ''k2'')]) = Some ''k2''"
  by (simp add: setRequestHeader_apiKey new_context_def falsy_def lower_ascii_def)

text \<open>
  C9. With an empty string captured for either secret, getAuthHeaders returns null, as it
  does with a secret that is absent, and in no other case. The capture guard takes an empty string for "not captured": a later step for that header
  name stores its value, empty or not.
\<close>

theorem empty_secret_blocks:
  "(apiKey self = Some [] \<or> authorization self = Some [] \<longrightarrow> getAuthHeaders self = None) \<and>
   (getAuthHeaders self = None \<longleftrightarrow> falsy (apiKey self) \<or> falsy (authorization self)) \<and>
   (apiKey self = Some [] \<and> toLowerCase key = ''apikey'' \<longrightarrow>
      apiKey (fst (setRequestHeader orig self this key val)) = Some val) \<and>
   (authorization self = Some [] \<and> toLowerCase key = ''authorization'' \<longrightarrow>
      authorization (fst (setRequestHeader orig self this key val)) = Some val)"
  by (auto simp: getAuthHeaders_def setRequestHeader_apiKey setRequestHeader_authorization
      falsy_def split: option.splits)

theorem empty_secret_blocks_witness:
  "getAuthHeaders sample_context = None \<and>
   apiKey (fst (setRequestHeader no_original sample_context () ''ApiKey'' ''k2'')) = Some ''k2'' \<and>
   getAuthHeaders sample_context_no_token = None \<and>
   authorization (fst (setRequestHeader no_original sample_context_no_token () ''Authorization''
     ''Bearer t2'')) = Some ''Bearer t2''"
  using empty_secret_blocks [of sample_context "''ApiKey''" no_original "()" "''k2''"]
    empty_secret_blocks [of sample_context_no_token "''Authorization''" no_original "()"
      "''Bearer t2''"]
  by (simp add: sample_context_def sample_context_no_token_def lower_ascii_def)

section \<open>Schedule service\<close>

lemma strict_equals_eq: "b \<noteq> NaN \<Longrightarrow> strict_equals a b \<longleftrightarrow> a = b"
  by (auto simp: strict_equals_def)

text \<open>
  C2. For a week list with first element w0, the week filter returns the elements whose
  TermID and YearStudy both equal (by \<open>===\<close>) those of w0, in the order of the list. The
  numbers of a parsed week list are never NaN, and then \<open>===\<close> is equality: the result is
  the list filtered by equality of the pair (TermID, YearStudy) with that of w0.
\<close>

theorem week_filter_current_term:
  "termWeeks w0 (w0 # ws) =
     filter (\<lambda>w. strict_equals (TermID w) (TermID w0) \<and>
                 strict_equals (YearStudy w) (YearStudy w0)) (w0 # ws) \<and>
   (TermID w0 \<noteq> NaN \<and> YearStudy w0 \<noteq> NaN \<longrightarrow>
      termWeeks w0 (w0 # ws) =
        filter (\<lambda>w. (TermID w, YearStudy w) = (TermID w0, YearStudy w0)) (w0 # ws)) \<and>
   subseq (termWeeks w0 (w0 # ws)) (w0 # ws)"
  by (simp add: termWeeks_def strict_equals_eq del: filter.simps)

theorem week_filter_current_term_witness:
  "termWeeks (week 2 2025 21) sample_weeks = [week 2 2025 21, week 2 2025 22, week 2 2025 23]"
  using week_filter_current_term [of "week 2 2025 21" "tl sample_weeks"]
  by (simp add: sample_weeks_def week_def strict_equals_def)

text \<open>Promise.all delivers the values of the tasks in the order of the tasks, in
  whatever order they complete.\<close>

lemma those_map_Some: "those (map Some xs) = Some xs"
  by (induction xs) simp_all

lemma fill_slots:
  assumes "length slots = length tasks"
  shows "length (fold (\<lambda>i slots. if i < length slots then slots[i := Some (tasks ! i)] else slots)
           completion slots) = length tasks \<and>
         (\<forall>i < length tasks.
            fold (\<lambda>i slots. if i < length slots then slots[i := Some (tasks ! i)] else slots)
              completion slots ! i =
            (if i \<in> set completion then Some (tasks ! i) else slots ! i))"
  using assms
proof (induction completion arbitrary: slots)
  case Nil
  then show ?case by simp
next
  case (Cons c completion)
  let ?s = "if c < length slots then slots[c := Some (tasks ! c)] else slots"
  have len: "length ?s = length tasks" using Cons.prems by simp
  from Cons.IH [OF len] show ?case
    using Cons.prems by (auto simp: nth_list_update)
qed

lemma Promise_all_complete:
  assumes "set completion = {0..<length tasks}"
  shows "Promise_all completion tasks = Some tasks"
proof -
  let ?slots = "fold (\<lambda>i slots. if i < length slots then slots[i := Some (tasks ! i)] else slots)
                  completion (replicate (length tasks) None)"
  from fill_slots [of "replicate (length tasks) None" tasks completion]
  have len: "length ?slots = length tasks"
    and nth: "\<forall>i < length tasks. ?slots ! i =
                (if i \<in> set completion then Some (tasks ! i) else replicate (length tasks) None ! i)"
    by simp_all
  have "?slots = map Some tasks"
  proof (rule nth_equalityI)
    show "length ?slots = length (map Some tasks)" using len by simp
  next
    fix i assume "i < length ?slots"
    with len have i: "i < length tasks" by simp
    with assms have "i \<in> set completion" by simp
    with nth i show "?slots ! i = map Some tasks ! i" by simp
  qed
  then show ?thesis
    by (simp add: Promise_all_def those_map_Some)
qed

lemma week_task_failed: "\<not> week_succeeded http headers iw \<Longrightarrow> week_task http headers iw = []"
  by (simp add: week_succeeded_def week_task_def split: sum.splits)

lemma concat_map_filter_nonempty:
  "(\<And>x. \<not> p x \<Longrightarrow> f x = []) \<Longrightarrow> concat (map f xs) = concat (map f (filter p xs))"
  by (induction xs) auto

text \<open>
  C5. With a week list and credentials captured, and every request completed (in any
  order: \<open>completion\<close> is any list that holds each position of the selected weeks), the
  loader shows no alert and fulfils with the records of the weeks whose request succeeded,
  concatenated in the order of the selected weeks. The task of a week whose request failed
  has no records; with the fetch client, a request fails when the fetch rejects (a network
  error) and when the response is not ok (an HTTP error).
\<close>

theorem failed_weeks_contribute_nothing:
  assumes weeks: "getWeeks ctx = Some (w0 # ws)"
    and headers: "getAuthHeaders ctx = Some headers"
    and completion: "set completion = {0..<length (termWeeks w0 (w0 # ws))}"
  shows "loadCurrentTermSchedules ctx http completion =
           ([], Some (concat (map (week_task http headers)
                        (filter (week_succeeded http headers)
                           (enumerate 0 (termWeeks w0 (w0 # ws))))))) \<and>
         list_all (\<lambda>iw. week_task http headers iw = [])
           (filter (\<lambda>iw. \<not> week_succeeded http headers iw) (enumerate 0 (termWeeks w0 (w0 # ws)))) \<and>
         (fetch url headers = None \<longrightarrow> getJson fetch url headers = Inl FetchRejected) \<and>
         (fetch url headers = Some res \<and> \<not> ok res \<longrightarrow>
            getJson fetch url headers = Inl (HttpError (status res) url))"
proof -
  let ?tasks = "map (week_task http headers) (enumerate 0 (termWeeks w0 (w0 # ws)))"
  have "set completion = {0..<length ?tasks}"
    using completion by simp
  then have "Promise_all completion ?tasks = Some ?tasks"
    by (rule Promise_all_complete)
  moreover have "concat ?tasks =
      concat (map (week_task http headers)
        (filter (week_succeeded http headers) (enumerate 0 (termWeeks w0 (w0 # ws)))))"
    by (rule concat_map_filter_nonempty) (rule week_task_failed)
  ultimately have "loadCurrentTermSchedules ctx http completion =
           ([], Some (concat (map (week_task http headers)
                        (filter (week_succeeded http headers)
                           (enumerate 0 (termWeeks w0 (w0 # ws)))))))"
    by (simp add: loadCurrentTermSchedules_def weeks headers Let_def)
  moreover have "list_all (\<lambda>iw. week_task http headers iw = [])
           (filter (\<lambda>iw. \<not> week_succeeded http headers iw) (enumerate 0 (termWeeks w0 (w0 # ws))))"
    by (simp add: list_all_iff week_task_failed)
  ultimately show ?thesis
    by (simp add: getJson_def)
qed

theorem failed_weeks_contribute_nothing_witness:
  "loadCurrentTermSchedules sample_loaded_context sample_http [2, 0, 1] =
     ([], Some [sample_item, sample_reversed_item]) \<and>
   getJson (sample_fetch 1) (schedule_url (week 2 2025 22)) sample_headers =
     Inl (HttpError 500 (schedule_url (week 2 2025 22))) \<and>
   getJson rejecting_fetch (schedule_url (week 2 2025 22)) sample_headers = Inl FetchRejected"
proof -
  have sel: "termWeeks (week 2 2025 21) (week 2 2025 21 # tl sample_weeks) =
      [week 2 2025 21, week 2 2025 22, week 2 2025 23]"
    by (simp add: termWeeks_def sample_weeks_def week_def strict_equals_def)
  have w: "getWeeks sample_loaded_context = Some (week 2 2025 21 # tl sample_weeks)"
    by (simp add: getWeeks_def sample_loaded_context_def sample_weeks_def)
  have h: "getAuthHeaders sample_loaded_context = Some sample_headers"
    by (simp add: getAuthHeaders_def sample_loaded_context_def sample_headers_def)
  have c: "set [2, 0, 1] =
      {0..<length (termWeeks (week 2 2025 21) (week 2 2025 21 # tl sample_weeks))}"
    by (auto simp: sel)
  have f: "sample_fetch 1 (schedule_url (week 2 2025 22)) sample_headers =
      Some \<lparr>ok = False, status = 500, json = None\<rparr>"
    by (simp add: sample_fetch_def)
  have r: "rejecting_fetch (schedule_url (week 2 2025 22)) sample_headers = None"
    by (simp add: rejecting_fetch_def)
  from failed_weeks_contribute_nothing [OF w h c, where http = sample_http
      and fetch = "sample_fetch 1" and url = "schedule_url (week 2 2025 22)"
      and res = "\<lparr>ok = False, status = 500, json = None\<rparr>"]
    failed_weeks_contribute_nothing [OF w h c, where http = sample_http
      and fetch = rejecting_fetch and url = "schedule_url (week 2 2025 22)"]
    f r
  show ?thesis
    by (simp add: sel week_task_def week_succeeded_def sample_http_def sample_fetch_def
        getJson_def)
qed

section \<open>Export orchestrator\<close>

lemma load_without_weeks:
  "getWeeks ctx = None \<or> getWeeks ctx = Some [] \<Longrightarrow>
   loadCurrentTermSchedules ctx http completion = ([alert_weeks_not_loaded], Some [])"
  by (auto simp: loadCurrentTermSchedules_def)

lemma load_without_credentials:
  "getWeeks ctx = Some (w # ws) \<Longrightarrow> getAuthHeaders ctx = None \<Longrightarrow>
   loadCurrentTermSchedules ctx http completion = ([alert_no_credentials], Some [])"
  by (simp add: loadCurrentTermSchedules_def)

lemma export_nothing:
  assumes ld: "loadCurrentTermSchedules ctx http completion = (shown, Some schedules)"
    and ev: "fst (mapper_map rt k schedules) = []"
  shows "exportCurrentTerm ctx http completion rt k downloader pg =
           Some (pg\<lparr>alerts := alerts pg @ shown @ [alert_nothing_to_export],
                    btn_textContent := ''Export'', btn_disabled := False\<rparr>,
                 snd (mapper_map rt k schedules))"
proof -
  obtain es k1 where mm: "mapper_map rt k schedules = (es, k1)"
    by (cases "mapper_map rt k schedules")
  with ev have "es = []" by simp
  with mm show ?thesis
    by (simp add: exportCurrentTerm_def ld Let_def)
qed

text \<open>
  C8. Without a cached week list (none, or an empty one) the loader shows the "week
  schedule not loaded" alert and fulfils with the empty list; with a week list and without
  credentials it shows the "not captured" alert and fulfils with the empty list; it raises
  nothing. When the loader fulfils and the mapper yields no event, the export shows the
  "nothing to export" alert after the loader's, never calls the downloader (the list of
  its calls is unchanged) and restores the button.
\<close>

theorem soft_no_op:
  "(getWeeks ctx = None \<or> getWeeks ctx = Some [] \<longrightarrow>
      loadCurrentTermSchedules ctx http completion = ([alert_weeks_not_loaded], Some [])) \<and>
   (getWeeks ctx = Some (w # ws) \<and> getAuthHeaders ctx = None \<longrightarrow>
      loadCurrentTermSchedules ctx http completion = ([alert_no_credentials], Some [])) \<and>
   (getWeeks ctx = None \<or> getWeeks ctx = Some [] \<or> getAuthHeaders ctx = None \<longrightarrow>
      snd (loadCurrentTermSchedules ctx http completion) = Some []) \<and>
   (loadCurrentTermSchedules ctx http completion = (shown, Some schedules) \<and>
    fst (mapper_map rt k schedules) = [] \<longrightarrow>
      exportCurrentTerm ctx http completion rt k downloader pg =
        Some (pg\<lparr>alerts := alerts pg @ shown @ [alert_nothing_to_export],
                 btn_textContent := ''Export'', btn_disabled := False\<rparr>,
              snd (mapper_map rt k schedules)) \<and>
      downloads (fst (the (exportCurrentTerm ctx http completion rt k downloader pg))) =
        downloads pg)"
proof (intro conjI impI)
  assume "getWeeks ctx = None \<or> getWeeks ctx = Some []"
  then show "loadCurrentTermSchedules ctx http completion = ([alert_weeks_not_loaded], Some [])"
    by (rule load_without_weeks)
next
  assume "getWeeks ctx = Some (w # ws) \<and> getAuthHeaders ctx = None"
  then show "loadCurrentTermSchedules ctx http completion = ([alert_no_credentials], Some [])"
    by (simp add: load_without_credentials)
next
  assume "getWeeks ctx = None \<or> getWeeks ctx = Some [] \<or> getAuthHeaders ctx = None"
  then show "snd (loadCurrentTermSchedules ctx http completion) = Some []"
    by (auto simp: loadCurrentTermSchedules_def split: option.splits list.splits)
next
  assume a: "loadCurrentTermSchedules ctx http completion = (shown, Some schedules) \<and>
    fst (mapper_map rt k schedules) = []"
  then show ex: "exportCurrentTerm ctx http completion rt k downloader pg =
        Some (pg\<lparr>alerts := alerts pg @ shown @ [alert_nothing_to_export],
                 btn_textContent := ''Export'', btn_disabled := False\<rparr>,
              snd (mapper_map rt k schedules))"
    by (simp add: export_nothing)
  show "downloads (fst (the (exportCurrentTerm ctx http completion rt k downloader pg))) =
        downloads pg"
    by (simp add: ex)
qed

theorem soft_no_op_witness:
  "loadCurrentTermSchedules new_context failing_http [] = ([alert_weeks_not_loaded], Some []) \<and>
   loadCurrentTermSchedules sample_context_weeks_only failing_http [] =
     ([alert_no_credentials], Some []) \<and>
   exportCurrentTerm new_context failing_http [] sample_runtime 0 never_fails sample_page =
     Some (sample_page\<lparr>alerts := [alert_weeks_not_loaded, alert_nothing_to_export]\<rparr>, 0) \<and>
   downloads (fst (the (exportCurrentTerm new_context failing_http [] sample_runtime 0 never_fails
     sample_page))) = []"
proof -
  note inst = soft_no_op [where ctx = new_context and http = failing_http and completion = "[]"
      and shown = "[alert_weeks_not_loaded]" and schedules = "[]" and rt = sample_runtime
      and k = 0 and downloader = never_fails and pg = sample_page]
  have w: "getWeeks new_context = None \<or> getWeeks new_context = Some []"
    by (simp add: getWeeks_def new_context_def)
  have l: "loadCurrentTermSchedules new_context failing_http [] =
      ([alert_weeks_not_loaded], Some [])"
    using inst w by blast
  have c: "getWeeks sample_context_weeks_only = Some (week 2 2025 21 # tl sample_weeks) \<and>
      getAuthHeaders sample_context_weeks_only = None"
    by (simp add: getWeeks_def getAuthHeaders_def sample_context_weeks_only_def sample_weeks_def)
  have n: "loadCurrentTermSchedules sample_context_weeks_only failing_http [] =
      ([alert_no_credentials], Some [])"
    using soft_no_op [where ctx = sample_context_weeks_only and w = "week 2 2025 21"
        and ws = "tl sample_weeks" and http = failing_http and completion = "[]"] c
    by blast
  have m: "fst (mapper_map sample_runtime 0 []) = []"
    by (simp add: mapper_map_Nil)
  from inst l m
  have "exportCurrentTerm new_context failing_http [] sample_runtime 0 never_fails sample_page =
        Some (sample_page\<lparr>alerts := alerts sample_page @ [alert_weeks_not_loaded] @
                 [alert_nothing_to_export],
                 btn_textContent := ''Export'', btn_disabled := False\<rparr>,
              snd (mapper_map sample_runtime 0 [])) \<and>
      downloads (fst (the (exportCurrentTerm new_context failing_http [] sample_runtime 0
        never_fails sample_page))) = downloads sample_page"
    by blast
  with l n show ?thesis
    by (simp add: mapper_map_Nil sample_page_def)
qed

end
